theory Spec2Isabelle
  imports Main
begin

section \<open>JavaScript strings\<close>

text \<open>
  A JavaScript string is a sequence of UTF-16 code units, and \<open>length\<close>, \<open>indexOf\<close>,
  \<open>substring\<close>, \<open>split\<close>, \<open>trim\<close> and \<open>replace\<close> all count and compare code units. A code
  unit is modelled as a natural number (only values below 65536 occur in a real string), a
  string as a list of them. \<open>lit\<close> turns an ASCII literal into such a string.
\<close>

type_synonym jschar = nat
type_synonym jsstring = "jschar list"

definition lit :: "string \<Rightarrow> jsstring" where
  "lit s = map of_char s"

text \<open>
  The line terminators of ECMAScript (LF, CR, LS, PS): the regular expression \<open>.\<close> matches
  every code unit but these.
\<close>

definition isLineTerminator :: "jschar \<Rightarrow> bool" where
  "isLineTerminator c = (c = 10 \<or> c = 13 \<or> c = 8232 \<or> c = 8233)"

text \<open>
  What \<open>String.prototype.trim\<close> strips and what \<open>\s\<close> matches: the ECMAScript white space
  (TAB, VT, FF, SP, NBSP, the Unicode space separators, the byte order mark) and the line
  terminators.
\<close>

definition isWhiteSpace :: "jschar \<Rightarrow> bool" where
  "isWhiteSpace c =
     (c = 9 \<or> c = 11 \<or> c = 12 \<or> c = 32 \<or> c = 160 \<or> c = 5760
      \<or> (8192 \<le> c \<and> c \<le> 8202) \<or> c = 8239 \<or> c = 8287 \<or> c = 12288 \<or> c = 65279
      \<or> isLineTerminator c)"

definition trim :: "jsstring \<Rightarrow> jsstring" where
  "trim s = rev (dropWhile isWhiteSpace (rev (dropWhile isWhiteSpace s)))"

fun startsWith :: "jsstring \<Rightarrow> jsstring \<Rightarrow> bool" where
  "startsWith [] s = True"
| "startsWith (p # ps) [] = False"
| "startsWith (p # ps) (c # cs) = (p = c \<and> startsWith ps cs)"

text \<open>The index of the first occurrence of \<open>pat\<close> in \<open>s\<close>; \<open>None\<close> is JavaScript's \<open>-1\<close>.\<close>

fun index_of :: "jsstring \<Rightarrow> jsstring \<Rightarrow> nat option" where
  "index_of pat [] = (if pat = [] then Some 0 else None)"
| "index_of pat (c # cs) =
     (if startsWith pat (c # cs) then Some 0 else map_option Suc (index_of pat cs))"

text \<open>\<open>s.indexOf(pat, from)\<close>: the search starts at \<open>from\<close>, clamped to the length of \<open>s\<close>.\<close>

definition indexOf :: "jsstring \<Rightarrow> jsstring \<Rightarrow> nat \<Rightarrow> nat option" where
  "indexOf s pat from =
     (let k = min from (length s)
      in map_option (\<lambda>i. i + k) (index_of pat (drop k s)))"

text \<open>
  \<open>s.substring(a, b)\<close>: both indices are clamped to the length of \<open>s\<close>, and they are swapped
  when the first is the larger one.
\<close>

definition substring :: "jsstring \<Rightarrow> nat \<Rightarrow> nat \<Rightarrow> jsstring" where
  "substring s a b =
     (let a' = min a (length s); b' = min b (length s);
          lo = min a' b'; hi = max a' b'
      in take (hi - lo) (drop lo s))"

text \<open>\<open>s.split(sep)\<close> for a separator of one code unit; the empty string gives one empty piece.\<close>

fun split_at :: "jschar \<Rightarrow> jsstring \<Rightarrow> jsstring list" where
  "split_at sep [] = [[]]"
| "split_at sep (c # cs) =
     (if c = sep then [] # split_at sep cs
      else (case split_at sep cs of
              [] \<Rightarrow> [[c]]
            | l # ls \<Rightarrow> (c # l) # ls))"

text \<open>\<open>pieces.join(sep)\<close>.\<close>

fun joinWith :: "jsstring \<Rightarrow> jsstring list \<Rightarrow> jsstring" where
  "joinWith sep [] = []"
| "joinWith sep [x] = x"
| "joinWith sep (x # y # ys) = x @ sep @ joinWith sep (y # ys)"

text \<open>
  A template literal converts the interpolated value to a string: \<open>null\<close> becomes the four
  characters \<open>null\<close>.
\<close>

definition toTemplateString :: "jsstring option \<Rightarrow> jsstring" where
  "toTemplateString v = (case v of None \<Rightarrow> lit ''null'' | Some s \<Rightarrow> s)"

section \<open>tsDocumenter.js: extracting and splicing a documentation comment\<close>

text \<open>\<open>line.replace(/^\* ?/, '')\<close>: one leading asterisk goes, and one space after it.\<close>

fun stripAsterisk :: "jsstring \<Rightarrow> jsstring" where
  "stripAsterisk [] = []"
| "stripAsterisk (c # cs) =
     (if c = 42 then (case cs of [] \<Rightarrow> [] | d # ds \<Rightarrow> if d = 32 then ds else d # ds)
      else c # cs)"

text \<open>
  \<open>extractComment(text)\<close>, lines 77 to 98 of tsDocumenter.js. The search for the closing
  marker starts at the position of the opening marker, not after it.
\<close>

definition extractComment :: "jsstring \<Rightarrow> jsstring option" where
  "extractComment text =
     (case indexOf text (lit ''/**'') 0 of
        None \<Rightarrow> None
      | Some commentStart \<Rightarrow>
          (case indexOf text (lit ''*/'') commentStart of
             None \<Rightarrow> None
           | Some commentEnd \<Rightarrow>
               Some (joinWith (lit ''\<newline>'')
                       (map (\<lambda>line. stripAsterisk (trim line))
                          (split_at 10 (substring text (commentStart + 3) commentEnd))))))"

text \<open>
  A declaration of the parsed tree, as the tool reads it: its name (constructors have none),
  its source text, and the texts of the documentation comments attached to it.
\<close>

record decl =
  decl_name :: "jsstring option"
  decl_text :: jsstring
  jsDocs :: "jsstring list"

text \<open>
  The two calls by which \<open>updateDoc\<close> changes the tree: \<open>jsDocs[0].replaceWithText(comment)\<close>
  and \<open>method.addJsDoc(comment)\<close>. The tree library is outside the repository, so an edit is
  recorded as the call with its argument.
\<close>

datatype tree_edit = ReplaceWithText jsstring | AddJsDoc jsstring

text \<open>
  \<open>updateDoc(method, documentation)\<close>, lines 108 to 121: the list of edits it performs on the
  declaration.
\<close>

definition updateDoc :: "decl \<Rightarrow> jsstring \<Rightarrow> tree_edit list" where
  "updateDoc method documentation =
     (let comment = lit ''\<newline>'' @ toTemplateString (extractComment documentation)
      in if length (jsDocs method) > 0 then [ReplaceWithText comment]
         else [AddJsDoc comment])"

text \<open>The text that an edit puts into the tree.\<close>

definition splicedContent :: "tree_edit \<Rightarrow> jsstring" where
  "splicedContent e = (case e of ReplaceWithText c \<Rightarrow> c | AddJsDoc c \<Rightarrow> c)"

section \<open>The completion client\<close>

text \<open>
  The configuration read from config.json. tsDocumenter.js reads the three prompt fields at
  the top level, the test creators under \<open>prompt\<close>; \<open>openAiConfig\<close> stands for the model
  parameters (model, max_tokens, n, stop, temperature and, in one variant, top_p), which go
  into the request as they are.
\<close>

record 'p config =
  systemContent :: jsstring
  beforeCode :: jsstring
  afterCode :: jsstring
  minLength :: int
  retries :: int
  openAiConfig :: 'p

text \<open>The payload of \<open>openai.createChatCompletion\<close>: the model parameters and the messages,
  each a role and a content.\<close>

record 'p request =
  req_params :: 'p
  req_messages :: "(jsstring \<times> jsstring) list"

text \<open>
  What the call gives back. The promise is rejected (transport, HTTP status, parsing), or it
  resolves to a response whose \<open>data.choices\<close> is a list of choices; a choice may lack its
  message and a message its content.
\<close>

datatype message = Message (content: "jsstring option")

datatype api_result = Rejected | Resolved (choices: "message option list")

text \<open>
  The errors the tools meet: a rejected request, the TypeError and ReferenceError of the
  language, the "Unexpected message format" error of the client, the RangeError of a call
  stack that is used up, and the system errors of the \<open>fs\<close> module with their code
  (\<open>ENOENT\<close>, \<open>ENOTDIR\<close>, \<open>EEXIST\<close>, \<open>EISDIR\<close>).
\<close>

datatype js_error = RequestError | TypeError | UnexpectedMessageFormat | ReferenceError
  | RangeError | SystemError string

text \<open>
  The world the tools act on: every path that exists on disk with what is there, a
  regular file with its content or a directory, and the requests sent to the completion
  endpoint so far. The endpoint is a function of the requests already sent and of the new
  one. Console output is not part of the model.
\<close>

datatype entry = RegularFile jsstring | Directory

record 'p world =
  files :: "jsstring \<rightharpoonup> entry"
  requests :: "'p request list"

type_synonym 'p api = "'p request list \<Rightarrow> 'p request \<Rightarrow> api_result"

text \<open>
  The body of the \<open>try\<close> block after the call (lines 58 to 64 of tsDocumenter.js, the same
  text in both test creators): \<open>choices[0].message\<close> throws a TypeError when there is no
  first choice, \<open>message.content\<close> inside the \<open>console.log\<close> throws one when the message is
  missing, and a missing or empty content throws the "Unexpected message format" error.
\<close>

definition firstMessageContent :: "api_result \<Rightarrow> js_error + jsstring" where
  "firstMessageContent r =
     (case r of
        Rejected \<Rightarrow> Inl RequestError
      | Resolved cs \<Rightarrow>
          (case cs of
             [] \<Rightarrow> Inl TypeError
           | c # _ \<Rightarrow>
               (case c of
                  None \<Rightarrow> Inl TypeError
                | Some m \<Rightarrow>
                    (case content m of
                       None \<Rightarrow> Inl UnexpectedMessageFormat
                     | Some txt \<Rightarrow>
                         if txt \<noteq> [] then Inr (trim txt)
                         else Inl UnexpectedMessageFormat))))"

text \<open>
  The \<open>try\<close>/\<open>catch\<close> around the call: one request is sent, and every error is caught and
  becomes \<open>null\<close>.
\<close>

definition chatCompletion ::
  "'p api \<Rightarrow> 'p request \<Rightarrow> 'p world \<Rightarrow> jsstring option \<times> 'p world" where
  "chatCompletion api req w =
     (let response = api (requests w) req;
          w' = w\<lparr>requests := requests w @ [req]\<rparr>
      in case firstMessageContent response of
           Inl error \<Rightarrow> (None, w')
         | Inr txt \<Rightarrow> (Some txt, w'))"

text \<open>\<open>createDoc(codigo, retries)\<close>, lines 38 to 69 of tsDocumenter.js.\<close>

definition userMessage_doc :: "'p config \<Rightarrow> jsstring \<Rightarrow> jsstring" where
  "userMessage_doc cfg codigo = beforeCode cfg @ codigo @ afterCode cfg"

definition createDoc ::
  "'p api \<Rightarrow> 'p config \<Rightarrow> jsstring \<Rightarrow> int \<Rightarrow> 'p world \<Rightarrow> jsstring option \<times> 'p world" where
  "createDoc api cfg codigo retries_arg w =
     (let userMessage = userMessage_doc cfg codigo;
          messages = [(lit ''system'', systemContent cfg), (lit ''user'', userMessage)]
      in chatCompletion api
           \<lparr>req_params = openAiConfig cfg, req_messages = messages\<rparr> w)"

section \<open>tsDocumenter.js: the loop body\<close>

text \<open>\<open>/^\s*$/.test(s)\<close>: every code unit of \<open>s\<close> is white space.\<close>

definition blank :: "jsstring \<Rightarrow> bool" where
  "blank s = list_all isWhiteSpace s"

text \<open>
  The body of each of the four loops of the main function (methods, lines 148 to 161;
  properties, constructors and enum members repeat it): the edits made to the declaration
  and the world afterwards. The caller omits \<open>retries\<close>, so the default from the
  configuration is passed.
\<close>

definition documentDeclaration ::
  "'p api \<Rightarrow> 'p config \<Rightarrow> decl \<Rightarrow> 'p world \<Rightarrow> tree_edit list \<times> 'p world" where
  "documentDeclaration api cfg method w =
     (let documentation = joinWith (lit ''\<newline>'') (jsDocs method)
      in if documentation = [] \<or> blank documentation then
           (let code = decl_text method
            in if int (length code) > minLength cfg then
                 (case createDoc api cfg code (retries cfg) w of
                    (newDocumentation, w') \<Rightarrow>
                      (case newDocumentation of
                         None \<Rightarrow> ([], w')
                       | Some txt \<Rightarrow>
                           if txt \<noteq> [] then (updateDoc method txt, w') else ([], w')))
               else ([], w))
         else ([], w))"

section \<open>The test creator: building the prompt\<close>

text \<open>
  \<open>template.replace(pattern, replacement)\<close> with a string pattern. Only the first occurrence
  of the pattern is replaced, and the replacement is not taken literally: \<open>$$\<close> stands for a
  dollar sign, \<open>$&\<close> for the matched text, \<open>$`\<close> for the text before the match and \<open>$'\<close> for
  the text after it. A string pattern captures nothing, so a dollar sign followed by
  anything else stays as it is.
\<close>

fun expandReplacement :: "jsstring \<Rightarrow> jsstring \<Rightarrow> jsstring \<Rightarrow> jsstring \<Rightarrow> jsstring" where
  "expandReplacement matched pre post [] = []"
| "expandReplacement matched pre post [c] = [c]"
| "expandReplacement matched pre post (c # d # ds) =
     (if c = 36 then
        (if d = 36 then 36 # expandReplacement matched pre post ds
         else if d = 38 then matched @ expandReplacement matched pre post ds
         else if d = 96 then pre @ expandReplacement matched pre post ds
         else if d = 39 then post @ expandReplacement matched pre post ds
         else c # expandReplacement matched pre post (d # ds))
      else c # expandReplacement matched pre post (d # ds))"

definition js_replace :: "jsstring \<Rightarrow> jsstring \<Rightarrow> jsstring \<Rightarrow> jsstring" where
  "js_replace template pat replacement =
     (case index_of pat template of
        None \<Rightarrow> template
      | Some i \<Rightarrow>
          (let pre = take i template; post = drop (i + length pat) template
           in pre @ expandReplacement pat pre post replacement @ post))"

text \<open>An argument that is \<open>undefined\<close> (the name of an anonymous class) is converted to the
  string \<open>undefined\<close>.\<close>

definition toStringArg :: "jsstring option \<Rightarrow> jsstring" where
  "toStringArg v = (case v of None \<Rightarrow> lit ''undefined'' | Some s \<Rightarrow> s)"

text \<open>
  \<open>removeComments(code)\<close>, lines 56 to 60 of part_001. \<open>code.replace(/\/\/.*/g, '')\<close> deletes,
  from left to right, every \<open>//\<close> with the rest of its line (the line terminator stays);
  \<open>.replace(/\/\*[\s\S]*?\*\//g, '')\<close> then deletes every \<open>/*\<close> up to and including the
  nearest \<open>*/\<close> that begins after it, and leaves a \<open>/*\<close> that is never closed.
\<close>

function removeSingleLineComments :: "jsstring \<Rightarrow> jsstring" where
  "removeSingleLineComments [] = []"
| "removeSingleLineComments [c] = [c]"
| "removeSingleLineComments (c # d # cs) =
     (if c = 47 \<and> d = 47
      then removeSingleLineComments (dropWhile (\<lambda>x. \<not> isLineTerminator x) cs)
      else c # removeSingleLineComments (d # cs))"
  by pat_completeness auto
termination
  by (relation "measure length") (auto intro: le_imp_less_Suc le_SucI length_dropWhile_le)

function removeMultiLineComments :: "jsstring \<Rightarrow> jsstring" where
  "removeMultiLineComments [] = []"
| "removeMultiLineComments [c] = [c]"
| "removeMultiLineComments (c # d # cs) =
     (if c = 47 \<and> d = 42 then
        (case index_of [42, 47] cs of
           None \<Rightarrow> c # removeMultiLineComments (d # cs)
         | Some k \<Rightarrow> removeMultiLineComments (drop (k + 2) cs))
      else c # removeMultiLineComments (d # cs))"
  by pat_completeness auto
termination
  by (relation "measure length") auto

definition removeComments :: "jsstring \<Rightarrow> jsstring" where
  "removeComments code = removeMultiLineComments (removeSingleLineComments code)"

text \<open>The user message of \<open>generateTestFileContent\<close>, lines 22 to 26 of part_001.\<close>

definition userMessage_test ::
  "'p config \<Rightarrow> jsstring option \<Rightarrow> jsstring \<Rightarrow> jsstring \<Rightarrow> jsstring \<Rightarrow> jsstring" where
  "userMessage_test cfg className funcName testFileName clasCode =
     (let beforeCode' = js_replace (beforeCode cfg) (lit ''{className}'') (toStringArg className);
          afterCode' = js_replace (js_replace (afterCode cfg) (lit ''{methodName}'') funcName)
                         (lit ''{testFileName}'') testFileName
      in beforeCode' @ removeComments clasCode @ afterCode')"

text \<open>\<open>generateTestFileContent(className, funcName, testFileName, clasCode, retries)\<close>, lines 21
  to 54 of part_001.\<close>

definition generateTestFileContent ::
  "'p api \<Rightarrow> 'p config \<Rightarrow> jsstring option \<Rightarrow> jsstring \<Rightarrow> jsstring \<Rightarrow> jsstring \<Rightarrow> int
     \<Rightarrow> 'p world \<Rightarrow> jsstring option \<times> 'p world" where
  "generateTestFileContent api cfg className funcName testFileName clasCode retries_arg w =
     (let userMessage = userMessage_test cfg className funcName testFileName clasCode;
          messages = [(lit ''system'', systemContent cfg), (lit ''user'', userMessage)]
      in chatCompletion api
           \<lparr>req_params = openAiConfig cfg, req_messages = messages\<rparr> w)"

text \<open>\<open>generateTestFileContent(funcName, code, retries)\<close> of unitTestCreator.js, lines 20 to
  52: no placeholder is substituted and the code is sent as it is.\<close>

definition generateTestFileContent_utc ::
  "'p api \<Rightarrow> 'p config \<Rightarrow> jsstring \<Rightarrow> jsstring \<Rightarrow> int
     \<Rightarrow> 'p world \<Rightarrow> jsstring option \<times> 'p world" where
  "generateTestFileContent_utc api cfg funcName code retries_arg w =
     (let userMessage = beforeCode cfg @ code @ afterCode cfg;
          messages = [(lit ''system'', systemContent cfg), (lit ''user'', userMessage)]
      in chatCompletion api
           \<lparr>req_params = openAiConfig cfg, req_messages = messages\<rparr> w)"

section \<open>The test creator: files and the main loop\<close>

text \<open>
  What the main function reads from the parsed project: a source file has a path and its
  classes, a class its name (an anonymous class has none), its text and its methods.
\<close>

record class_decl =
  class_name :: "jsstring option"
  class_text :: jsstring
  class_methods :: "decl list"

record source_file =
  file_path :: jsstring
  file_classes :: "class_decl list"

text \<open>
  The value handed to \<open>fs.writeFileSync\<close>: a string, \<open>null\<close> (a generation that failed), or
  the pending promise of a call that was not awaited.
\<close>

datatype write_data = Text jsstring | Null | PendingPromise

text \<open>
  The parts of Node that the tools call and the repository does not contain: the functions
  of the \<open>path\<close> module; what \<open>fs.writeFileSync\<close> does with data that is not a string (\<open>None\<close>:
  it throws a TypeError before it opens the file, as Node 14 and later do; \<open>Some s\<close>: it
  writes \<open>s\<close>, as Node 12 does after converting the value to a string); and the number of
  nested calls the stack holds before a RangeError is thrown. The directory that holds a
  path is the one \<open>dirname\<close> names.
\<close>

record node =
  basename :: "jsstring \<Rightarrow> jsstring \<Rightarrow> jsstring"
  dirname :: "jsstring \<Rightarrow> jsstring"
  join :: "jsstring list \<Rightarrow> jsstring"
  nonStringData :: "write_data \<Rightarrow> jsstring option"
  stackLimit :: nat

text \<open>A run of the main function ends normally in a world, or it is aborted by an error
  that nothing catches, in the world reached by then.\<close>

type_synonym 'p outcome = "(js_error \<times> 'p world) + 'p world"

definition finalWorld :: "'p outcome \<Rightarrow> 'p world" where
  "finalWorld r = (case r of Inl (e, w) \<Rightarrow> w | Inr w \<Rightarrow> w)"

text \<open>\<open>fs.existsSync(path)\<close>: true for a regular file and for a directory.\<close>

definition existsSync :: "'p world \<Rightarrow> jsstring \<Rightarrow> bool" where
  "existsSync w path = (files w path \<noteq> None)"

text \<open>
  \<open>fs.mkdirSync(dir)\<close>: it fails when something exists at the path, and when the directory
  that is to hold it is missing or is a regular file.
\<close>

definition mkdirSync :: "node \<Rightarrow> jsstring \<Rightarrow> 'p world \<Rightarrow> 'p outcome" where
  "mkdirSync nd dir w =
     (if existsSync w dir then Inl (SystemError ''EEXIST'', w)
      else (case files w (dirname nd dir) of
              None \<Rightarrow> Inl (SystemError ''ENOENT'', w)
            | Some (RegularFile s) \<Rightarrow> Inl (SystemError ''ENOTDIR'', w)
            | Some Directory \<Rightarrow> Inr (w\<lparr>files := (files w)(dir \<mapsto> Directory)\<rparr>)))"

text \<open>
  Writing the content \<open>s\<close> at a path: it fails on a directory, and when the directory that
  is to hold the file is missing or is a regular file; otherwise the file is created or
  replaced.
\<close>

definition writeContent :: "node \<Rightarrow> jsstring \<Rightarrow> jsstring \<Rightarrow> 'p world \<Rightarrow> 'p outcome" where
  "writeContent nd filePath s w =
     (case files w filePath of
        Some Directory \<Rightarrow> Inl (SystemError ''EISDIR'', w)
      | _ \<Rightarrow>
          (case files w (dirname nd filePath) of
             None \<Rightarrow> Inl (SystemError ''ENOENT'', w)
           | Some (RegularFile t) \<Rightarrow> Inl (SystemError ''ENOTDIR'', w)
           | Some Directory \<Rightarrow> Inr (w\<lparr>files := (files w)(filePath \<mapsto> RegularFile s)\<rparr>)))"

text \<open>\<open>fs.writeFileSync(filePath, data, 'utf-8')\<close>.\<close>

definition writeFileSync :: "node \<Rightarrow> jsstring \<Rightarrow> write_data \<Rightarrow> 'p world \<Rightarrow> 'p outcome" where
  "writeFileSync nd filePath d w =
     (case d of
        Text s \<Rightarrow> writeContent nd filePath s w
      | _ \<Rightarrow>
          (case nonStringData nd d of
             None \<Rightarrow> Inl (TypeError, w)
           | Some s \<Rightarrow> writeContent nd filePath s w))"

text \<open>
  \<open>ensureDirectoryExistence(filePath)\<close>, lines 69 to 76 of part_001. The first argument of
  the model counts the calls the stack still holds. The recursive call is made on
  \<open>path.dirname(dir)\<close>, so it looks at the directory two levels above \<open>dir\<close>, and its result
  is not used.
\<close>

fun ensureDirectoryExistence :: "node \<Rightarrow> nat \<Rightarrow> jsstring \<Rightarrow> 'p world \<Rightarrow> 'p outcome" where
  "ensureDirectoryExistence nd 0 filePath w = Inl (RangeError, w)"
| "ensureDirectoryExistence nd (Suc depth) filePath w =
     (let dir = dirname nd filePath
      in if existsSync w dir then Inr w
         else (case ensureDirectoryExistence nd depth (dirname nd dir) w of
                 Inl e \<Rightarrow> Inl e
               | Inr w' \<Rightarrow> mkdirSync nd dir w'))"

text \<open>\<open>testFileExists(testFilePath)\<close>, lines 84 to 86 of part_001.\<close>

definition testFileExists :: "'p world \<Rightarrow> jsstring \<Rightarrow> bool" where
  "testFileExists w testFilePath = existsSync w testFilePath"

text \<open>\<open>createUnitTestFile(filePath, testFileContent)\<close>, lines 94 to 98 of part_001.\<close>

definition createUnitTestFile :: "node \<Rightarrow> jsstring \<Rightarrow> write_data \<Rightarrow> 'p world \<Rightarrow> 'p outcome" where
  "createUnitTestFile nd filePath testFileContent w =
     (case ensureDirectoryExistence nd (stackLimit nd) filePath w of
        Inl e \<Rightarrow> Inl e
      | Inr w' \<Rightarrow> writeFileSync nd filePath testFileContent w')"

text \<open>Lines 126 and 127 of part_001: the name and the path of the test file of a method.\<close>

definition testFileName :: "node \<Rightarrow> source_file \<Rightarrow> jsstring \<Rightarrow> jsstring" where
  "testFileName nd file methodName =
     basename nd (file_path file) (lit ''.ts'') @ lit ''.'' @ methodName @ lit ''.spec.ts''"

definition testFilePath :: "node \<Rightarrow> source_file \<Rightarrow> jsstring \<Rightarrow> jsstring" where
  "testFilePath nd file methodName =
     join nd [dirname nd (file_path file), testFileName nd file methodName]"

text \<open>The body of the loop over the methods of a class, lines 121 to 137 of part_001.\<close>

definition processMethod ::
  "'p api \<Rightarrow> node \<Rightarrow> 'p config \<Rightarrow> source_file \<Rightarrow> class_decl \<Rightarrow> decl \<Rightarrow> 'p world \<Rightarrow> 'p outcome" where
  "processMethod api nd cfg file classObj method w =
     (case decl_name method of
        None \<Rightarrow> Inr w
      | Some methodName \<Rightarrow>
          if methodName \<noteq> [] then
            (let methodCode = decl_text method
             in if int (length methodCode) > minLength cfg then
                  (if \<not> testFileExists w (testFilePath nd file methodName) then
                     (case generateTestFileContent api cfg (class_name classObj) methodName
                             (testFileName nd file methodName) (class_text classObj)
                             (retries cfg) w of
                        (testFileContent, w') \<Rightarrow>
                          createUnitTestFile nd (testFilePath nd file methodName)
                            (case testFileContent of None \<Rightarrow> Null | Some s \<Rightarrow> Text s) w')
                   else Inr w)
                else Inr w)
          else Inr w)"

fun processMethods ::
  "'p api \<Rightarrow> node \<Rightarrow> 'p config \<Rightarrow> source_file \<Rightarrow> class_decl \<Rightarrow> decl list \<Rightarrow> 'p world \<Rightarrow> 'p outcome" where
  "processMethods api nd cfg file classObj [] w = Inr w"
| "processMethods api nd cfg file classObj (method # methods) w =
     (case processMethod api nd cfg file classObj method w of
        Inl e \<Rightarrow> Inl e
      | Inr w' \<Rightarrow> processMethods api nd cfg file classObj methods w')"

fun processClasses ::
  "'p api \<Rightarrow> node \<Rightarrow> 'p config \<Rightarrow> source_file \<Rightarrow> class_decl list \<Rightarrow> 'p world \<Rightarrow> 'p outcome" where
  "processClasses api nd cfg file [] w = Inr w"
| "processClasses api nd cfg file (classObj # classes) w =
     (case processMethods api nd cfg file classObj (class_methods classObj) w of
        Inl e \<Rightarrow> Inl e
      | Inr w' \<Rightarrow> processClasses api nd cfg file classes w')"

text \<open>The loop over the source files, lines 113 to 159 of part_001. No source file is
  changed, so \<open>project.saveSync()\<close> writes nothing.\<close>

fun processFiles ::
  "'p api \<Rightarrow> node \<Rightarrow> 'p config \<Rightarrow> source_file list \<Rightarrow> 'p world \<Rightarrow> 'p outcome" where
  "processFiles api nd cfg [] w = Inr w"
| "processFiles api nd cfg (file # rest) w =
     (case processClasses api nd cfg file (file_classes file) w of
        Inl e \<Rightarrow> Inl e
      | Inr w' \<Rightarrow> processFiles api nd cfg rest w')"

subsection \<open>unitTestCreator.js\<close>

text \<open>\<open>createUnitTestFile(filePath, testFileContent)\<close>, lines 59 to 62 of unitTestCreator.js:
  it writes at once.\<close>

definition createUnitTestFile_utc ::
  "node \<Rightarrow> jsstring \<Rightarrow> write_data \<Rightarrow> 'p world \<Rightarrow> 'p outcome" where
  "createUnitTestFile_utc nd filePath testFileContent w =
     writeFileSync nd filePath testFileContent w"

text \<open>
  Reading an identifier that no enclosing scope binds throws a ReferenceError. Identifiers
  are compared letter by letter, capitals included.
\<close>

definition readIdentifier :: "(string \<times> jsstring) list \<Rightarrow> string \<Rightarrow> js_error + jsstring" where
  "readIdentifier scope x =
     (case map_of scope x of None \<Rightarrow> Inl ReferenceError | Some v \<Rightarrow> Inr v)"

text \<open>
  The body of the loop over the methods of a class, lines 84 to 95 of unitTestCreator.js.
  The file declares no \<open>methodname\<close>, neither at its top level nor in the main function; at
  line 89 the strings in scope are \<open>methodName\<close> and \<open>code\<close>, and the first argument of the
  call reads \<open>methodname\<close>. The call is not awaited: were it made, the request would be sent
  and the promise, still pending, handed to \<open>createUnitTestFile\<close>; this file does not look
  for an existing test file, and it puts the test file below a \<open>__tests__\<close> directory.
\<close>

definition processMethod_utc ::
  "'p api \<Rightarrow> node \<Rightarrow> 'p config \<Rightarrow> source_file \<Rightarrow> decl \<Rightarrow> 'p world \<Rightarrow> 'p outcome" where
  "processMethod_utc api nd cfg file method w =
     (case decl_name method of
        None \<Rightarrow> Inr w
      | Some methodName \<Rightarrow>
          if methodName \<noteq> [] then
            (let code = decl_text method
             in if int (length code) > minLength cfg then
                  (case readIdentifier [(''methodName'', methodName), (''code'', code)]
                          ''methodname'' of
                     Inl e \<Rightarrow> Inl (e, w)
                   | Inr funcName \<Rightarrow>
                       (case generateTestFileContent_utc api cfg funcName code (retries cfg) w of
                          (result, w') \<Rightarrow>
                            createUnitTestFile_utc nd
                              (join nd [dirname nd (file_path file), lit ''__tests__'',
                                        testFileName nd file methodName])
                              PendingPromise w'))
                else Inr w)
          else Inr w)"

subsection \<open>The path module on POSIX\<close>

text \<open>
  Node's \<open>path.posix\<close>. \<open>posix_dirname\<close> and \<open>posix_join\<close> follow Node's algorithms on every
  input; \<open>posix_basename\<close> is Node's on a path that does not end in a slash, as the path of a
  source file is.
\<close>

definition lastComponent :: "jsstring \<Rightarrow> jsstring" where
  "lastComponent p = rev (takeWhile (\<lambda>c. c \<noteq> 47) (rev p))"

definition endsWith :: "jsstring \<Rightarrow> jsstring \<Rightarrow> bool" where
  "endsWith s suffix = startsWith (rev suffix) (rev s)"

definition posix_basename :: "jsstring \<Rightarrow> jsstring \<Rightarrow> jsstring" where
  "posix_basename p ext =
     (let c = lastComponent p
      in if p = ext then []
         else if ext \<noteq> [] \<and> length ext < length c \<and> endsWith c ext
         then take (length c - length ext) c
         else c)"

text \<open>
  \<open>dirname\<close> scans the path from its end down to index 1: it passes the slashes at the end,
  then the last component, and cuts at the slash before it.
\<close>

definition posix_dirname :: "jsstring \<Rightarrow> jsstring" where
  "posix_dirname p =
     (if p = [] then lit ''.''
      else
        (let hasRoot = (hd p = 47);
             r = dropWhile (\<lambda>c. c \<noteq> 47) (dropWhile (\<lambda>c. c = 47) (rev (tl p)))
         in if r = [] then (if hasRoot then lit ''/'' else lit ''.'')
            else if hasRoot \<and> length r = 1 then lit ''//''
            else take (length r) p))"

text \<open>
  \<open>normalize\<close> goes through the segments between the slashes and keeps the segments of the
  result: an empty segment and \<open>.\<close> are dropped; \<open>..\<close> removes the last kept segment unless
  there is none or it is \<open>..\<close> itself, and is then kept in a relative path and dropped in an
  absolute one.
\<close>

fun normalizeSegments :: "bool \<Rightarrow> jsstring list \<Rightarrow> jsstring list \<Rightarrow> jsstring list" where
  "normalizeSegments allowAboveRoot res [] = res"
| "normalizeSegments allowAboveRoot res (seg # segs) =
     (if seg = [] \<or> seg = lit ''.'' then normalizeSegments allowAboveRoot res segs
      else if seg = lit ''..'' then
        (if res \<noteq> [] \<and> last res \<noteq> lit ''..''
         then normalizeSegments allowAboveRoot (butlast res) segs
         else if allowAboveRoot then normalizeSegments allowAboveRoot (res @ [seg]) segs
         else normalizeSegments allowAboveRoot res segs)
      else normalizeSegments allowAboveRoot (res @ [seg]) segs)"

definition posix_normalize :: "jsstring \<Rightarrow> jsstring" where
  "posix_normalize p =
     (if p = [] then lit ''.''
      else
        (let isAbsolute = (hd p = 47);
             trailingSeparator = (last p = 47);
             res = joinWith (lit ''/'') (normalizeSegments (\<not> isAbsolute) [] (split_at 47 p))
         in if res = [] then
              (if isAbsolute then lit ''/'' else if trailingSeparator then lit ''./'' else lit ''.'')
            else (if isAbsolute then lit ''/'' else []) @ res
                   @ (if trailingSeparator then lit ''/'' else [])))"

definition posix_join :: "jsstring list \<Rightarrow> jsstring" where
  "posix_join parts =
     (let joined = joinWith (lit ''/'') (filter (\<lambda>p. p \<noteq> []) parts)
      in if joined = [] then lit ''.'' else posix_normalize joined)"

definition posix :: node where
  "posix = \<lparr>basename = posix_basename, dirname = posix_dirname, join = posix_join,
            nonStringData = (\<lambda>d. None), stackLimit = 10000\<rparr>"

section \<open>The contracts of the specification\<close>

text \<open>
  The result of the completion client as a function of what the endpoint gave back:
  \<open>null\<close> when the promise was rejected, when there is no first choice, when the first
  choice has no message, and when the message has no content or an empty one; otherwise the
  content without the white space around it.
\<close>

definition completionOf :: "api_result \<Rightarrow> jsstring option" where
  "completionOf r =
     (case r of
        Rejected \<Rightarrow> None
      | Resolved [] \<Rightarrow> None
      | Resolved (None # _) \<Rightarrow> None
      | Resolved (Some (Message None) # _) \<Rightarrow> None
      | Resolved (Some (Message (Some txt)) # _) \<Rightarrow> if txt = [] then None else Some (trim txt))"

text \<open>
  Literal replacement, in the words of the specification: the first occurrence of the token
  gives way to the value as it is, and a template without the token stays as it is.
\<close>

definition replaceFirst :: "jsstring \<Rightarrow> jsstring \<Rightarrow> jsstring \<Rightarrow> jsstring" where
  "replaceFirst template token v =
     (case index_of token template of
        None \<Rightarrow> template
      | Some i \<Rightarrow> take i template @ v @ drop (i + length token) template)"

text \<open>A value in which no dollar sign is followed by \<open>$\<close>, \<open>&\<close>, a backquote or a quote.\<close>

fun noPattern :: "jsstring \<Rightarrow> bool" where
  "noPattern [] = True"
| "noPattern [c] = True"
| "noPattern (c # d # ds) =
     ((c \<noteq> 36 \<or> (d \<noteq> 36 \<and> d \<noteq> 38 \<and> d \<noteq> 96 \<and> d \<noteq> 39)) \<and> noPattern (d # ds))"

section \<open>Example projects\<close>

definition exampleConfig :: "unit config" where
  "exampleConfig = \<lparr>systemContent = lit ''You document code.'', beforeCode = lit ''Document: '',
     afterCode = lit '' End.'', minLength = 10, retries = 3, openAiConfig = ()\<rparr>"

definition testConfig :: "unit config" where
  "testConfig = \<lparr>systemContent = lit ''You write unit tests.'',
     beforeCode = lit ''Class {className}: '',
     afterCode = lit '' Test {methodName} in {testFileName}.'',
     minLength = 10, retries = 3, openAiConfig = ()\<rparr>"

definition emptyWorld :: "unit world" where
  "emptyWorld = \<lparr>files = Map.empty, requests = []\<rparr>"

text \<open>A disk with the directories \<open>/\<close> and \<open>/proj\<close>, and the same disk with one regular file.\<close>

definition projDisk :: "unit world" where
  "projDisk = \<lparr>files = [lit ''/'' \<mapsto> Directory, lit ''/proj'' \<mapsto> Directory], requests = []\<rparr>"

definition worldWith :: "jsstring \<Rightarrow> jsstring \<Rightarrow> unit world" where
  "worldWith p c = projDisk\<lparr>files := (files projDisk)(p \<mapsto> RegularFile c)\<rparr>"

text \<open>An endpoint that answers every request with the same choices.\<close>

definition answering :: "message option list \<Rightarrow> unit api" where
  "answering cs = (\<lambda>history req. Resolved cs)"

definition computeMethod :: decl where
  "computeMethod = \<lparr>decl_name = Some (lit ''compute''),
     decl_text = lit ''compute(x: number) { return x + 1; }'', jsDocs = []\<rparr>"

definition renderMethod :: decl where
  "renderMethod = \<lparr>decl_name = Some (lit ''render''),
     decl_text = lit ''render() { return null; }'', jsDocs = []\<rparr>"

definition svcClass :: class_decl where
  "svcClass = \<lparr>class_name = Some (lit ''Svc''),
     class_text = lit ''class Svc { compute(x: number) { return x + 1; } }'',
     class_methods = [computeMethod]\<rparr>"

definition svcFile :: source_file where
  "svcFile = \<lparr>file_path = lit ''/proj/svc.ts'', file_classes = [svcClass]\<rparr>"

definition appClass :: class_decl where
  "appClass = \<lparr>class_name = Some (lit ''App''),
     class_text = lit ''class App { render() { return null; } }'',
     class_methods = [renderMethod]\<rparr>"

definition appFile :: source_file where
  "appFile = \<lparr>file_path = lit ''/proj/App.tsx'', file_classes = [appClass]\<rparr>"

section \<open>Properties of the documentation splice\<close>

lemmas js_eval = lit_def indexOf_def substring_def trim_def isWhiteSpace_def
  isLineTerminator_def toTemplateString_def

lemma extractComment_hello_world:
  "extractComment (lit ''/**\<newline> * Hello\<newline> * World\<newline> */'')
     = Some (lit ''\<newline>Hello\<newline>World\<newline>'')"
  by (simp add: extractComment_def js_eval)

text \<open>
  C1, as the specification states it, does not hold: for the generated text
  \<open>/**\n * Hello\n * World\n */\<close> the content spliced into a declaration without a
  documentation comment is not \<open>\nHello\nWorld\<close>.
\<close>

theorem applyDoc_hello_world_not_as_stated:
  "map splicedContent
     (updateDoc \<lparr>decl_name = Some (lit ''bar''), decl_text = lit ''bar() {}'', jsDocs = []\<rparr>
        (lit ''/**\<newline> * Hello\<newline> * World\<newline> */''))
   \<noteq> [lit ''\<newline>Hello\<newline>World'']"
  unfolding updateDoc_def extractComment_hello_world
  by (simp add: splicedContent_def toTemplateString_def lit_def Let_def)

text \<open>
  C1, amended: for the generated text \<open>/**\n * Hello\n * World\n */\<close> and every declaration,
  \<open>updateDoc\<close> makes one edit, and its content is exactly \<open>\n\nHello\nWorld\n\<close>. The text
  between the markers begins with the line break after \<open>/**\<close> and ends with the blank before
  \<open>*/\<close>, so splitting it gives an empty first line and a last line that is stripped to the
  empty string; both stay in the rejoined text, and one line break is put in front.
\<close>

theorem applyDoc_hello_world:
  "map splicedContent (updateDoc method (lit ''/**\<newline> * Hello\<newline> * World\<newline> */''))
     = [lit ''\<newline>\<newline>Hello\<newline>World\<newline>'']"
  unfolding updateDoc_def extractComment_hello_world
  by (simp add: splicedContent_def toTemplateString_def lit_def Let_def)

text \<open>
  C2 asks that a generated text without \<open>/**\<close>, or with \<open>/**\<close> and no \<open>*/\<close> after it, changes
  nothing. \<open>extractComment\<close> returns \<open>null\<close> for both, but \<open>updateDoc\<close> never tests its result:
  the template literal turns \<open>null\<close> into the word \<open>null\<close>, which is added as a new
  documentation comment or replaces the first existing one.
\<close>

theorem applyDoc_without_marker_splices_null:
  "updateDoc \<lparr>decl_name = Some (lit ''bar''), decl_text = lit ''bar() {}'', jsDocs = []\<rparr>
     (lit ''Computes bar.'') = [AddJsDoc (lit ''\<newline>null'')]
   \<and> updateDoc \<lparr>decl_name = Some (lit ''bar''), decl_text = lit ''bar() {}'',
                 jsDocs = [lit ''/** old */'']\<rparr>
     (lit ''/** Computes bar.'') = [ReplaceWithText (lit ''\<newline>null'')]"
  by (simp add: updateDoc_def extractComment_def js_eval)

text \<open>
  C10: in the generated text \<open>/**/\<close> the search for \<open>*/\<close> from the position of \<open>/**\<close> finds the
  one at index 2, which overlaps the opening marker. \<open>substring(3, 2)\<close> swaps its bounds and
  gives \<open>*\<close>, which is stripped, so \<open>extractComment\<close> returns the empty string and not
  \<open>null\<close>, and \<open>updateDoc\<close> splices a documentation comment that is a single line break, into
  every declaration.
\<close>

theorem extractComment_overlapping_markers:
  "indexOf (lit ''/**/'') (lit ''*/'') 0 = Some 2
   \<and> substring (lit ''/**/'') 3 2 = lit ''*''
   \<and> extractComment (lit ''/**/'') = Some []
   \<and> map splicedContent (updateDoc method (lit ''/**/'')) = [lit ''\<newline>'']"
  by (simp add: updateDoc_def splicedContent_def extractComment_def js_eval Let_def)

section \<open>Which declarations are documented\<close>

lemma blank_newline: "blank (lit ''\<newline>'')"
  by (simp add: blank_def lit_def isWhiteSpace_def isLineTerminator_def)

lemma blank_joinWith: "blank sep \<Longrightarrow> blank (joinWith sep xs) = blank (concat xs)"
  by (induction sep xs rule: joinWith.induct) (auto simp: blank_def)

lemma requests_createDoc:
  "requests (snd (createDoc api cfg codigo r w)) \<noteq> requests w"
  by (simp add: createDoc_def chatCompletion_def Let_def split: sum.split)

lemma startsWith_not_blank: "startsWith (lit ''/**'') doc \<Longrightarrow> \<not> blank doc"
  by (cases doc) (auto simp: lit_def blank_def isWhiteSpace_def isLineTerminator_def)

text \<open>
  C3: in documentation mode a declaration is selected, that is, a request is sent for it,
  if and only if it has no documentation comment or the concatenation of the texts of its
  documentation comments is empty or all white space, and its source text is strictly
  longer than the configured minimum. In particular no request is sent for a declaration
  with a documentation comment whose text is not blank (the text of a comment in a parsed
  file begins with \<open>/**\<close>, so there it never is), nor for one whose text is at most as long
  as the minimum, whatever its documentation.
\<close>

theorem select_documentation:
  "(requests (snd (documentDeclaration api cfg d w)) \<noteq> requests w)
     = ((jsDocs d = [] \<or> blank (concat (jsDocs d)))
        \<and> minLength cfg < int (length (decl_text d)))
   \<and> ((\<exists>doc \<in> set (jsDocs d). \<not> blank doc)
        \<longrightarrow> requests (snd (documentDeclaration api cfg d w)) = requests w)
   \<and> ((\<exists>doc \<in> set (jsDocs d). startsWith (lit ''/**'') doc)
        \<longrightarrow> requests (snd (documentDeclaration api cfg d w)) = requests w)
   \<and> (int (length (decl_text d)) \<le> minLength cfg
        \<longrightarrow> requests (snd (documentDeclaration api cfg d w)) = requests w)"
proof -
  let ?doc = "joinWith (lit ''\<newline>'') (jsDocs d)"
  have guard: "(?doc = [] \<or> blank ?doc) = blank (concat (jsDocs d))"
    using blank_joinWith [OF blank_newline, of "jsDocs d"] by (auto simp: blank_def)
  have spec_guard: "(jsDocs d = [] \<or> blank (concat (jsDocs d))) = blank (concat (jsDocs d))"
    by (auto simp: blank_def)
  have sent: "(requests (snd (documentDeclaration api cfg d w)) \<noteq> requests w)
     = (blank (concat (jsDocs d)) \<and> minLength cfg < int (length (decl_text d)))"
  proof (cases "blank (concat (jsDocs d)) \<and> minLength cfg < int (length (decl_text d))")
    case True
    then have "snd (documentDeclaration api cfg d w)
        = snd (createDoc api cfg (decl_text d) (retries cfg) w)"
      using guard by (simp add: documentDeclaration_def Let_def split: prod.split option.split)
    then show ?thesis using True requests_createDoc by simp
  next
    case False
    then have "snd (documentDeclaration api cfg d w) = w"
      using guard by (auto simp: documentDeclaration_def Let_def)
    then show ?thesis using False by simp
  qed
  have nonblank: "(\<exists>doc \<in> set (jsDocs d). \<not> blank doc) \<Longrightarrow> \<not> blank (concat (jsDocs d))"
    by (auto simp: blank_def list_all_iff)
  have marked: "(\<exists>doc \<in> set (jsDocs d). startsWith (lit ''/**'') doc)
      \<Longrightarrow> \<not> blank (concat (jsDocs d))"
    using nonblank startsWith_not_blank by blast
  show ?thesis using sent spec_guard nonblank marked by auto
qed

text \<open>
  C3 at three declarations, with a minimum of 10: a method of 36 characters without
  documentation is selected; the same method with the comment \<open>/** Adds one. */\<close> is not; and
  a method of 6 characters without documentation is not.
\<close>

theorem select_documentation_witness:
  "requests (snd (documentDeclaration (answering []) exampleConfig computeMethod emptyWorld))
     \<noteq> requests emptyWorld
   \<and> (\<exists>doc \<in> set [lit ''/** Adds one. */'']. \<not> blank doc)
   \<and> (\<exists>doc \<in> set [lit ''/** Adds one. */'']. startsWith (lit ''/**'') doc)
   \<and> requests (snd (documentDeclaration (answering []) exampleConfig
        (computeMethod\<lparr>jsDocs := [lit ''/** Adds one. */'']\<rparr>) emptyWorld)) = requests emptyWorld
   \<and> int (length (lit ''f() {}'')) \<le> minLength exampleConfig
   \<and> requests (snd (documentDeclaration (answering []) exampleConfig
        (computeMethod\<lparr>decl_text := lit ''f() {}''\<rparr>) emptyWorld)) = requests emptyWorld"
  using select_documentation [of "answering []" exampleConfig computeMethod emptyWorld]
    select_documentation [of "answering []" exampleConfig
       "computeMethod\<lparr>jsDocs := [lit ''/** Adds one. */'']\<rparr>" emptyWorld]
    select_documentation [of "answering []" exampleConfig
       "computeMethod\<lparr>decl_text := lit ''f() {}''\<rparr>" emptyWorld]
  by (simp add: computeMethod_def exampleConfig_def blank_def lit_def isWhiteSpace_def
      isLineTerminator_def)

section \<open>Properties of the completion client\<close>

lemma strip_end_Cons:
  "\<not> P x \<Longrightarrow> rev (dropWhile P (rev (x # xs))) = x # rev (dropWhile P (rev xs))"
  by (simp add: dropWhile_append3)

lemma dropWhile_rev_dropWhile:
  "dropWhile P (rev (dropWhile P (rev (dropWhile P s)))) = rev (dropWhile P (rev (dropWhile P s)))"
proof (cases "dropWhile P s")
  case Nil
  show ?thesis unfolding Nil by simp
next
  case (Cons x xs)
  then have notP: "\<not> P x"
    by (simp add: dropWhile_eq_Cons_conv)
  have "rev (dropWhile P (rev (x # xs))) = x # rev (dropWhile P (rev xs))"
    using notP by (rule strip_end_Cons)
  then show ?thesis unfolding Cons using notP by simp
qed

lemma trim_idem: "trim (trim s) = trim s"
  by (simp add: trim_def dropWhile_rev_dropWhile)

lemma fst_chatCompletion:
  "fst (chatCompletion api req w) = completionOf (api (requests w) req)"
  by (simp add: chatCompletion_def firstMessageContent_def completionOf_def Let_def
      split: sum.split api_result.split list.split option.split message.split)

lemma completionOf_trimmed: "completionOf r = Some s \<Longrightarrow> trim s = s"
  by (auto simp: completionOf_def trim_idem
      split: api_result.splits list.splits option.splits message.splits if_splits)

lemma snd_chatCompletion:
  "snd (chatCompletion api req w) = w\<lparr>requests := requests w @ [req]\<rparr>"
  by (simp add: chatCompletion_def Let_def split: sum.split)

text \<open>
  C4, as the specification states it, does not hold: when the content of the first message
  is a single blank, which is not empty, \<open>createDoc\<close> returns its trimmed form, the empty
  string, and so neither \<open>null\<close> nor a string that is not empty.
\<close>

theorem completion_result_may_be_empty:
  "fst (createDoc (answering [Some (Message (Some (lit '' '')))]) exampleConfig
          (lit ''bar() {}'') 3 emptyWorld) = Some []"
  by (simp add: createDoc_def fst_chatCompletion completionOf_def answering_def Let_def
      trim_def isWhiteSpace_def lit_def)

text \<open>
  C4, amended: \<open>createDoc\<close> and both versions of \<open>generateTestFileContent\<close> are the same
  client applied to their request, and for every response the client returns either
  \<open>null\<close> or a string that trimming leaves unchanged (it is empty when the content was
  nothing but white space). No error leaves the client: the result is \<open>null\<close> when the
  request fails, when there is no first choice, and when the first choice's message or its
  content is missing or the content is empty; in every other case it is the trimmed content.
\<close>

theorem completion_result:
  "(\<exists>req. createDoc api cfg codigo r w = chatCompletion api req w)
   \<and> (\<exists>req. generateTestFileContent api cfg className funcName fileName clasCode r w
              = chatCompletion api req w)
   \<and> (\<exists>req. generateTestFileContent_utc api cfg funcName code r w = chatCompletion api req w)
   \<and> fst (chatCompletion api req w) = completionOf (api (requests w) req)
   \<and> (case completionOf response of None \<Rightarrow> True | Some s \<Rightarrow> trim s = s)"
proof -
  have "\<exists>req. createDoc api cfg codigo r w = chatCompletion api req w"
    by (auto simp: createDoc_def Let_def)
  moreover have "\<exists>req. generateTestFileContent api cfg className funcName fileName clasCode r w
              = chatCompletion api req w"
    by (auto simp: generateTestFileContent_def Let_def)
  moreover have "\<exists>req. generateTestFileContent_utc api cfg funcName code r w
              = chatCompletion api req w"
    by (auto simp: generateTestFileContent_utc_def Let_def)
  moreover have "case completionOf response of None \<Rightarrow> True | Some s \<Rightarrow> trim s = s"
    by (simp add: completionOf_trimmed split: option.split)
  ultimately show ?thesis
    using fst_chatCompletion [of api req w] by blast
qed

text \<open>
  C7: the value passed for \<open>retries\<close> changes neither the result nor the world afterwards,
  in \<open>createDoc\<close> and in both versions of \<open>generateTestFileContent\<close>, and each call adds exactly
  one request to those already sent.
\<close>

theorem retries_unused:
  "createDoc api cfg codigo r1 w = createDoc api cfg codigo r2 w
   \<and> (\<exists>req. requests (snd (createDoc api cfg codigo r1 w)) = requests w @ [req])
   \<and> generateTestFileContent api cfg className funcName fileName clasCode r1 w
       = generateTestFileContent api cfg className funcName fileName clasCode r2 w
   \<and> (\<exists>req. requests (snd (generateTestFileContent api cfg className funcName fileName
                              clasCode r1 w)) = requests w @ [req])
   \<and> generateTestFileContent_utc api cfg funcName code r1 w
       = generateTestFileContent_utc api cfg funcName code r2 w
   \<and> (\<exists>req. requests (snd (generateTestFileContent_utc api cfg funcName code r1 w))
              = requests w @ [req])"
  by (simp add: createDoc_def generateTestFileContent_def generateTestFileContent_utc_def
      snd_chatCompletion Let_def)

section \<open>Properties of the prompt builder\<close>

lemma expandReplacement_literal:
  "noPattern r \<Longrightarrow> expandReplacement matched pre post r = r"
  by (induction matched pre post r rule: expandReplacement.induct) auto

lemma js_replace_literal:
  "noPattern v \<Longrightarrow> js_replace template token v = replaceFirst template token v"
  by (simp add: js_replace_def replaceFirst_def expandReplacement_literal Let_def
      split: option.split)

lemma js_replace_unmatched:
  "index_of token template = None \<Longrightarrow> js_replace template token v = template"
  by (simp add: js_replace_def)

lemma userMessage_test_literal:
  "noPattern (toStringArg className) \<Longrightarrow> noPattern funcName \<Longrightarrow> noPattern fileName \<Longrightarrow>
   userMessage_test cfg className funcName fileName clasCode
     = replaceFirst (beforeCode cfg) (lit ''{className}'') (toStringArg className)
       @ removeComments clasCode
       @ replaceFirst (replaceFirst (afterCode cfg) (lit ''{methodName}'') funcName)
           (lit ''{testFileName}'') fileName"
  by (simp add: userMessage_test_def js_replace_literal Let_def)

lemmas replace_eval = js_replace_def replaceFirst_def toStringArg_def lit_def Let_def
  removeComments_def isLineTerminator_def

text \<open>
  C8 asks that the tokens are replaced by their values as literal strings. The code calls
  \<open>String.prototype.replace\<close> with the value as second argument, which reads \<open>$$\<close>, \<open>$&\<close>, \<open>$`\<close>
  and \<open>$'\<close> in the value as patterns. For a class named \<open>$$\<close> the token \<open>{className}\<close> becomes a
  single dollar sign: the user message is \<open>Class $: ...\<close> and not the message that literal
  replacement gives, \<open>Class $$: ...\<close>.
\<close>

theorem prompt_builder_dollar_not_literal:
  "userMessage_test testConfig (Some (lit ''$$'')) (lit ''get'') (lit ''svc.get.spec.ts'')
     (lit ''class $$ { get() {} }'')
   = lit ''Class $: class $$ { get() {} } Test get in svc.get.spec.ts.''
   \<and> replaceFirst (beforeCode testConfig) (lit ''{className}'') (lit ''$$'')
       @ removeComments (lit ''class $$ { get() {} }'')
       @ replaceFirst (replaceFirst (afterCode testConfig) (lit ''{methodName}'') (lit ''get''))
           (lit ''{testFileName}'') (lit ''svc.get.spec.ts'')
   = lit ''Class $$: class $$ { get() {} } Test get in svc.get.spec.ts.''"
  by (simp add: userMessage_test_def testConfig_def replace_eval)

section \<open>Properties of the test creator\<close>

lemma requests_writeContent:
  "requests (finalWorld (writeContent nd p s w)) = requests w"
  by (simp add: writeContent_def finalWorld_def split: option.split entry.split)

lemma requests_writeFileSync:
  "requests (finalWorld (writeFileSync nd p d w)) = requests w"
  by (simp add: writeFileSync_def requests_writeContent split: write_data.split option.split)
    (simp add: finalWorld_def)

lemma requests_mkdirSync:
  "requests (finalWorld (mkdirSync nd dir w)) = requests w"
  by (simp add: mkdirSync_def finalWorld_def split: option.split entry.split)

lemma requests_ensureDirectoryExistence:
  "requests (finalWorld (ensureDirectoryExistence nd depth p w)) = requests w"
proof (induction depth arbitrary: p w)
  case 0
  show ?case by (simp add: finalWorld_def)
next
  case (Suc depth)
  show ?case
  proof (cases "ensureDirectoryExistence nd depth (dirname nd (dirname nd p)) w")
    case (Inl e)
    then show ?thesis
      using Suc.IH [of "dirname nd (dirname nd p)" w]
      by (simp add: finalWorld_def Let_def)
  next
    case (Inr w')
    then have "requests w' = requests w"
      using Suc.IH [of "dirname nd (dirname nd p)" w] by (simp add: finalWorld_def)
    then show ?thesis
      using Inr requests_mkdirSync [of nd "dirname nd p" w']
      by (simp add: Let_def) (simp add: finalWorld_def)
  qed
qed

lemma requests_createUnitTestFile:
  "requests (finalWorld (createUnitTestFile nd p d w)) = requests w"
proof (cases "ensureDirectoryExistence nd (stackLimit nd) p w")
  case (Inl e)
  then show ?thesis
    using requests_ensureDirectoryExistence [of nd "stackLimit nd" p w]
    by (simp add: createUnitTestFile_def)
next
  case (Inr w')
  then have "requests w' = requests w"
    using requests_ensureDirectoryExistence [of nd "stackLimit nd" p w]
    by (simp add: finalWorld_def)
  then show ?thesis using Inr by (simp add: createUnitTestFile_def requests_writeFileSync)
qed

lemma files_writeFileSync:
  "files w q = Some c \<Longrightarrow> q \<noteq> p \<Longrightarrow>
   files (finalWorld (writeFileSync nd p d w)) q = Some c"
  by (auto simp: writeFileSync_def writeContent_def finalWorld_def
      split: write_data.split option.split entry.split)

lemma files_mkdirSync:
  "files w q = Some c \<Longrightarrow> files (finalWorld (mkdirSync nd dir w)) q = Some c"
  by (auto simp: mkdirSync_def existsSync_def finalWorld_def split: option.split entry.split)

lemma files_ensureDirectoryExistence:
  "files w q = Some c \<Longrightarrow>
   files (finalWorld (ensureDirectoryExistence nd depth p w)) q = Some c"
proof (induction depth arbitrary: p w)
  case 0
  then show ?case by (simp add: finalWorld_def)
next
  case (Suc depth)
  have step: "files (finalWorld (ensureDirectoryExistence nd depth (dirname nd (dirname nd p)) w)) q
      = Some c"
    using Suc.prems by (rule Suc.IH)
  show ?case
  proof (cases "ensureDirectoryExistence nd depth (dirname nd (dirname nd p)) w")
    case (Inl e)
    then show ?thesis using step Suc.prems by (simp add: finalWorld_def Let_def)
  next
    case (Inr w')
    then have "files w' q = Some c" using step by (simp add: finalWorld_def)
    then have "files (finalWorld (mkdirSync nd (dirname nd p) w')) q = Some c"
      by (rule files_mkdirSync)
    then show ?thesis using Inr Suc.prems by (simp add: Let_def) (simp add: finalWorld_def)
  qed
qed

lemma files_createUnitTestFile:
  assumes "files w q = Some c" "files w p = None"
  shows "files (finalWorld (createUnitTestFile nd p d w)) q = Some c"
proof -
  have neq: "q \<noteq> p" using assms by auto
  have step: "files (finalWorld (ensureDirectoryExistence nd (stackLimit nd) p w)) q = Some c"
    using assms(1) by (rule files_ensureDirectoryExistence)
  show ?thesis
  proof (cases "ensureDirectoryExistence nd (stackLimit nd) p w")
    case (Inl e)
    then show ?thesis using step by (simp add: createUnitTestFile_def)
  next
    case (Inr w')
    then have "files w' q = Some c" using step by (simp add: finalWorld_def)
    then have "files (finalWorld (writeFileSync nd p d w')) q = Some c"
      using neq by (rule files_writeFileSync)
    then show ?thesis using Inr by (simp add: createUnitTestFile_def)
  qed
qed

lemma ensureDirectoryExistence_present:
  "0 < depth \<Longrightarrow> existsSync w (dirname nd p) \<Longrightarrow> ensureDirectoryExistence nd depth p w = Inr w"
  by (cases depth) (simp_all add: Let_def)

lemma processMethod_selected:
  assumes "decl_name method = Some name" "name \<noteq> []"
    "minLength cfg < int (length (decl_text method))"
    "files w (testFilePath nd file name) = None"
  shows "processMethod api nd cfg file classObj method w
     = createUnitTestFile nd (testFilePath nd file name)
         (case fst (generateTestFileContent api cfg (class_name classObj) name
                      (testFileName nd file name) (class_text classObj) (retries cfg) w) of
            None \<Rightarrow> Null | Some s \<Rightarrow> Text s)
         (snd (generateTestFileContent api cfg (class_name classObj) name
                 (testFileName nd file name) (class_text classObj) (retries cfg) w))"
  using assms
  by (simp add: processMethod_def testFileExists_def existsSync_def Let_def split: prod.split)

lemma processMethod_skipped:
  assumes "\<not> (\<exists>name. decl_name method = Some name \<and> name \<noteq> []
            \<and> minLength cfg < int (length (decl_text method))
            \<and> files w (testFilePath nd file name) = None)"
  shows "processMethod api nd cfg file classObj method w = Inr w"
  using assms
  by (auto simp: processMethod_def testFileExists_def existsSync_def Let_def split: option.split)

lemma snd_generateTestFileContent:
  "snd (generateTestFileContent api cfg cn fn tf cc r w)
     = w\<lparr>requests := requests w @
           [\<lparr>req_params = openAiConfig cfg,
             req_messages = [(lit ''system'', systemContent cfg),
                             (lit ''user'', userMessage_test cfg cn fn tf cc)]\<rparr>]\<rparr>"
  by (simp add: generateTestFileContent_def snd_chatCompletion Let_def)

lemma fst_generateTestFileContent_answering:
  "fst (generateTestFileContent (answering cs) cfg cn fn tf cc r w) = completionOf (Resolved cs)"
  by (simp add: generateTestFileContent_def fst_chatCompletion answering_def Let_def)

lemma processMethod_sends_request_iff:
  "(requests (finalWorld (processMethod api nd cfg file classObj method w)) \<noteq> requests w)
     = (\<exists>name. decl_name method = Some name \<and> name \<noteq> []
          \<and> minLength cfg < int (length (decl_text method))
          \<and> \<not> existsSync w (testFilePath nd file name))"
proof (cases "\<exists>name. decl_name method = Some name \<and> name \<noteq> []
            \<and> minLength cfg < int (length (decl_text method))
            \<and> files w (testFilePath nd file name) = None")
  case True
  then obtain name where n: "decl_name method = Some name" "name \<noteq> []"
    "minLength cfg < int (length (decl_text method))"
    "files w (testFilePath nd file name) = None" by blast
  have "requests (finalWorld (processMethod api nd cfg file classObj method w)) \<noteq> requests w"
    by (simp add: processMethod_selected [OF n] requests_createUnitTestFile
        snd_generateTestFileContent)
  then show ?thesis using True by (simp add: existsSync_def)
next
  case False
  then have "processMethod api nd cfg file classObj method w = Inr w"
    by (rule processMethod_skipped)
  then show ?thesis using False by (simp add: finalWorld_def existsSync_def)
qed

lemmas path_eval = testFilePath_def testFileName_def posix_def posix_basename_def
  posix_dirname_def posix_join_def posix_normalize_def lastComponent_def endsWith_def
  lit_def Let_def

lemma svc_testFilePath:
  "testFilePath posix svcFile (lit ''compute'') = lit ''/proj/svc.compute.spec.ts''"
  by (simp add: svcFile_def path_eval)

lemma app_testFilePath:
  "testFilePath posix appFile (lit ''render'') = lit ''/proj/App.tsx.render.spec.ts''"
  by (simp add: appFile_def path_eval)

lemma app_test_file_written:
  "processMethod (answering [Some (Message (Some (lit ''test content'')))]) posix exampleConfig
     appFile appClass renderMethod projDisk
   = Inr (projDisk
       \<lparr>requests := [\<lparr>req_params = (), req_messages =
            [(lit ''system'', systemContent exampleConfig),
             (lit ''user'', userMessage_test exampleConfig (Some (lit ''App'')) (lit ''render'')
                (testFileName posix appFile (lit ''render''))
                (lit ''class App { render() { return null; } }''))]\<rparr>],
        files := (files projDisk)(lit ''/proj/App.tsx.render.spec.ts''
                   \<mapsto> RegularFile (lit ''test content''))\<rparr>)"
proof -
  let ?p = "lit ''/proj/App.tsx.render.spec.ts''"
  have absent: "files projDisk (testFilePath posix appFile (lit ''render'')) = None"
    unfolding app_testFilePath by (simp add: projDisk_def lit_def)
  have n: "decl_name renderMethod = Some (lit ''render'')" "lit ''render'' \<noteq> []"
    "minLength exampleConfig < int (length (decl_text renderMethod))"
    "files projDisk (testFilePath posix appFile (lit ''render'')) = None"
    using absent by (simp_all add: renderMethod_def exampleConfig_def lit_def)
  have dir: "dirname posix ?p = lit ''/proj''"
    by (simp add: posix_def posix_dirname_def lit_def Let_def)
  have answer: "completionOf (Resolved [Some (Message (Some (lit ''test content'')))])
      = Some (lit ''test content'')"
    by (simp add: completionOf_def trim_def isWhiteSpace_def isLineTerminator_def lit_def)
  have ensure: "ensureDirectoryExistence posix (stackLimit posix) ?p w = Inr w"
    if "files w (lit ''/proj'') = Some Directory" for w :: "unit world"
    using that by (intro ensureDirectoryExistence_present) (simp_all add: existsSync_def dir, simp add: posix_def)
  show ?thesis
    unfolding processMethod_selected [OF n] app_testFilePath
      fst_generateTestFileContent_answering answer snd_generateTestFileContent
    by (simp add: createUnitTestFile_def ensure writeFileSync_def writeContent_def dir
        projDisk_def appClass_def exampleConfig_def)
      (simp add: lit_def)
qed

text \<open>
  C5 asks that a method is processed exactly when its name is not empty, its text is longer
  than the minimum and no file exists at \<open>base.method.spec.ext\<close> beside the source file, with
  \<open>base\<close> the name of the source file without its extension. The project loader also hands
  over \<open>.tsx\<close> files, and \<open>path.basename(sourcePath, '.ts')\<close> does not take \<open>.tsx\<close> off. For the
  method \<open>render\<close> of \<open>/proj/App.tsx\<close> the computed path is \<open>/proj/App.tsx.render.spec.ts\<close>: on a
  disk without test files the test is written there, and nothing at
  \<open>/proj/App.render.spec.tsx\<close> or \<open>/proj/App.render.spec.ts\<close>; with that file on disk the method
  is skipped, although nothing exists at either of the two other paths.
\<close>

theorem tsx_test_file_path_differs:
  "testFilePath posix appFile (lit ''render'') = lit ''/proj/App.tsx.render.spec.ts''
   \<and> files (finalWorld (processMethod (answering [Some (Message (Some (lit ''test content'')))])
               posix exampleConfig appFile appClass renderMethod projDisk))
        (lit ''/proj/App.tsx.render.spec.ts'') = Some (RegularFile (lit ''test content''))
   \<and> files (finalWorld (processMethod (answering [Some (Message (Some (lit ''test content'')))])
               posix exampleConfig appFile appClass renderMethod projDisk))
        (lit ''/proj/App.render.spec.tsx'') = None
   \<and> files (finalWorld (processMethod (answering [Some (Message (Some (lit ''test content'')))])
               posix exampleConfig appFile appClass renderMethod projDisk))
        (lit ''/proj/App.render.spec.ts'') = None
   \<and> processMethod (answering [Some (Message (Some (lit ''test content'')))]) posix exampleConfig
        appFile appClass renderMethod
        (worldWith (lit ''/proj/App.tsx.render.spec.ts'') (lit ''old''))
       = Inr (worldWith (lit ''/proj/App.tsx.render.spec.ts'') (lit ''old''))
   \<and> decl_name renderMethod = Some (lit ''render'')
   \<and> minLength exampleConfig < int (length (decl_text renderMethod))
   \<and> files (worldWith (lit ''/proj/App.tsx.render.spec.ts'') (lit ''old''))
        (lit ''/proj/App.render.spec.tsx'') = None
   \<and> files (worldWith (lit ''/proj/App.tsx.render.spec.ts'') (lit ''old''))
        (lit ''/proj/App.render.spec.ts'') = None"
proof -
  have skipped: "processMethod (answering [Some (Message (Some (lit ''test content'')))]) posix
          exampleConfig appFile appClass renderMethod
          (worldWith (lit ''/proj/App.tsx.render.spec.ts'') (lit ''old''))
        = Inr (worldWith (lit ''/proj/App.tsx.render.spec.ts'') (lit ''old''))"
    by (rule processMethod_skipped)
      (simp add: renderMethod_def app_testFilePath worldWith_def)
  show ?thesis
    unfolding app_test_file_written skipped app_testFilePath
    by (simp add: finalWorld_def renderMethod_def exampleConfig_def worldWith_def projDisk_def
        lit_def)
qed

lemma processMethod_keeps_files:
  assumes "files w q = Some c"
  shows "files (finalWorld (processMethod api nd cfg file classObj method w)) q = Some c"
proof (cases "\<exists>name. decl_name method = Some name \<and> name \<noteq> []
            \<and> minLength cfg < int (length (decl_text method))
            \<and> files w (testFilePath nd file name) = None")
  case True
  then obtain name where n: "decl_name method = Some name" "name \<noteq> []"
    "minLength cfg < int (length (decl_text method))"
    "files w (testFilePath nd file name) = None" by blast
  show ?thesis
    unfolding processMethod_selected [OF n] snd_generateTestFileContent
    by (rule files_createUnitTestFile) (simp_all add: assms n)
next
  case False
  then have "processMethod api nd cfg file classObj method w = Inr w"
    by (rule processMethod_skipped)
  then show ?thesis using assms by (simp add: finalWorld_def)
qed

lemma processMethods_keeps_files:
  "files w q = Some c \<Longrightarrow>
   files (finalWorld (processMethods api nd cfg file classObj ms w)) q = Some c"
proof (induction ms arbitrary: w)
  case Nil
  then show ?case by (simp add: finalWorld_def)
next
  case (Cons m ms)
  have step: "files (finalWorld (processMethod api nd cfg file classObj m w)) q = Some c"
    using Cons.prems by (rule processMethod_keeps_files)
  show ?case
  proof (cases "processMethod api nd cfg file classObj m w")
    case (Inl e)
    then show ?thesis using step by (simp add: finalWorld_def)
  next
    case (Inr w')
    then have "files w' q = Some c" using step by (simp add: finalWorld_def)
    then show ?thesis using Inr Cons.IH by simp
  qed
qed

lemma processClasses_keeps_files:
  "files w q = Some c \<Longrightarrow>
   files (finalWorld (processClasses api nd cfg file cs w)) q = Some c"
proof (induction cs arbitrary: w)
  case Nil
  then show ?case by (simp add: finalWorld_def)
next
  case (Cons cl cs)
  have step: "files (finalWorld (processMethods api nd cfg file cl (class_methods cl) w)) q
      = Some c"
    using Cons.prems by (rule processMethods_keeps_files)
  show ?case
  proof (cases "processMethods api nd cfg file cl (class_methods cl) w")
    case (Inl e)
    then show ?thesis using step by (simp add: finalWorld_def)
  next
    case (Inr w')
    then have "files w' q = Some c" using step by (simp add: finalWorld_def)
    then show ?thesis using Inr Cons.IH by simp
  qed
qed

lemma processFiles_keeps_files:
  "files w q = Some c \<Longrightarrow>
   files (finalWorld (processFiles api nd cfg fs w)) q = Some c"
proof (induction fs arbitrary: w)
  case Nil
  then show ?case by (simp add: finalWorld_def)
next
  case (Cons f fs)
  have step: "files (finalWorld (processClasses api nd cfg f (file_classes f) w)) q = Some c"
    using Cons.prems by (rule processClasses_keeps_files)
  show ?case
  proof (cases "processClasses api nd cfg f (file_classes f) w")
    case (Inl e)
    then show ?thesis using step by (simp add: finalWorld_def)
  next
    case (Inr w')
    then have "files w' q = Some c" using step by (simp add: finalWorld_def)
    then show ?thesis using Inr Cons.IH by simp
  qed
qed

lemma readIdentifier_methodname:
  "readIdentifier [(''methodName'', methodName), (''code'', code)] ''methodname''
     = Inl ReferenceError"
  by (simp add: readIdentifier_def)

lemma processMethod_utc_cases:
  "processMethod_utc api nd cfg file method w
     = (case decl_name method of
          None \<Rightarrow> Inr w
        | Some name \<Rightarrow>
            if name \<noteq> [] \<and> minLength cfg < int (length (decl_text method))
            then Inl (ReferenceError, w) else Inr w)"
  by (simp add: processMethod_utc_def readIdentifier_methodname Let_def split: option.split)

text \<open>
  C6: when the test file of a method exists at the computed path, the loop body of part_001
  leaves the world as it is: no request is sent and nothing is written. So a whole run of
  part_001, over any source files and whether it ends normally or is aborted, leaves every
  file that existed before it with the content it had. The loop body of unitTestCreator.js
  never changes the world either: it skips the method or is aborted before the call.
\<close>

theorem existing_test_file_is_kept:
  "(decl_name method = Some name \<and> files w (testFilePath nd file name) \<noteq> None
      \<longrightarrow> processMethod api nd cfg file classObj method w = Inr w)
   \<and> (files w q = Some c
      \<longrightarrow> files (finalWorld (processFiles api nd cfg sourceFiles w)) q = Some c)
   \<and> finalWorld (processMethod_utc api nd cfg file method w) = w"
proof -
  have "processMethod api nd cfg file classObj method w = Inr w"
    if "decl_name method = Some name" "files w (testFilePath nd file name) \<noteq> None"
    using that by (intro processMethod_skipped) auto
  moreover have "finalWorld (processMethod_utc api nd cfg file method w) = w"
    by (simp add: processMethod_utc_cases finalWorld_def split: option.split)
  ultimately show ?thesis
    using processFiles_keeps_files [of w q c api nd cfg sourceFiles] by blast
qed

text \<open>
  C6 at \<open>/proj/svc.ts\<close> with \<open>/proj/svc.compute.spec.ts\<close> on disk and an endpoint that would
  answer \<open>new\<close>: the method is skipped, and after the run the file still reads \<open>old\<close>.
\<close>

theorem existing_test_file_is_kept_witness:
  "files (worldWith (lit ''/proj/svc.compute.spec.ts'') (lit ''old''))
      (testFilePath posix svcFile (lit ''compute'')) \<noteq> None
   \<and> processMethod (answering [Some (Message (Some (lit ''new'')))]) posix exampleConfig svcFile
       svcClass computeMethod (worldWith (lit ''/proj/svc.compute.spec.ts'') (lit ''old''))
     = Inr (worldWith (lit ''/proj/svc.compute.spec.ts'') (lit ''old''))
   \<and> files (finalWorld (processFiles (answering [Some (Message (Some (lit ''new'')))]) posix
              exampleConfig [svcFile]
              (worldWith (lit ''/proj/svc.compute.spec.ts'') (lit ''old''))))
       (lit ''/proj/svc.compute.spec.ts'') = Some (RegularFile (lit ''old''))"
  using existing_test_file_is_kept [of computeMethod "lit ''compute''"
      "worldWith (lit ''/proj/svc.compute.spec.ts'') (lit ''old'')" posix svcFile
      "answering [Some (Message (Some (lit ''new'')))]" exampleConfig svcClass
      "lit ''/proj/svc.compute.spec.ts''" "RegularFile (lit ''old'')" "[svcFile]"]
  by (simp add: svc_testFilePath computeMethod_def worldWith_def)

text \<open>
  C9: in unitTestCreator.js, for every method of a class whose name is not empty and whose
  text is longer than the configured minimum, reading \<open>methodname\<close> throws a ReferenceError:
  the run is aborted in the world as it was, with no request sent and no test file written.
\<close>

theorem methodname_is_undefined:
  "decl_name method = Some name \<Longrightarrow> name \<noteq> [] \<Longrightarrow>
   minLength cfg < int (length (decl_text method)) \<Longrightarrow>
   processMethod_utc api nd cfg file method w = Inl (ReferenceError, w)"
  by (simp add: processMethod_utc_cases)

text \<open>C9 at the method \<open>compute\<close>, 36 characters long, with a minimum of 10.\<close>

theorem methodname_is_undefined_witness:
  "processMethod_utc (answering []) posix exampleConfig svcFile computeMethod emptyWorld
     = Inl (ReferenceError, emptyWorld)"
  using methodname_is_undefined [of computeMethod "lit ''compute''" exampleConfig
      "answering []" posix svcFile emptyWorld]
  by (simp add: computeMethod_def exampleConfig_def lit_def)

end
